theory Spec2Isabelle
  imports Main
begin

section \<open>Python strings and values\<close>

text \<open>
  Python's \<open>str\<close> is modelled as \<open>string\<close>. The helpers below are the string
  methods the orchestrator uses, restricted to what ASCII text needs.
\<close>

text \<open>\<open>s.startswith(p)\<close> and \<open>s.endswith(p)\<close>.\<close>

fun starts_with :: "string \<Rightarrow> string \<Rightarrow> bool" where
  "starts_with s [] = True"
| "starts_with [] (p # ps) = False"
| "starts_with (c # cs) (p # ps) = (c = p \<and> starts_with cs ps)"

definition ends_with :: "string \<Rightarrow> string \<Rightarrow> bool" where
  "ends_with s p = starts_with (rev s) (rev p)"

text \<open>\<open>needle in hay\<close> on strings: \<open>needle\<close> occurs as a contiguous piece of \<open>hay\<close>.\<close>

fun py_in :: "string \<Rightarrow> string \<Rightarrow> bool" where
  "py_in needle [] = (needle = [])"
| "py_in needle (c # cs) = (starts_with (c # cs) needle \<or> py_in needle cs)"

text \<open>The ASCII characters for which \<open>str.isspace()\<close> holds.\<close>

definition py_whitespace :: "char \<Rightarrow> bool" where
  "py_whitespace c =
     (c = CHR 0x09 \<or> c = CHR 0x0A \<or> c = CHR 0x0B \<or> c = CHR 0x0C \<or> c = CHR 0x0D \<or>
      c = CHR 0x1C \<or> c = CHR 0x1D \<or> c = CHR 0x1E \<or> c = CHR 0x1F \<or> c = CHR 0x20)"

text \<open>\<open>s.strip()\<close>.\<close>

definition py_strip :: "string \<Rightarrow> string" where
  "py_strip s = rev (dropWhile py_whitespace (rev (dropWhile py_whitespace s)))"

text \<open>\<open>s.split()\<close>: the maximal runs of characters that are not whitespace.\<close>

fun split_ws :: "string \<Rightarrow> string \<Rightarrow> string list" where
  "split_ws cur [] = (if cur = [] then [] else [cur])"
| "split_ws cur (c # cs) =
     (if py_whitespace c then (if cur = [] then split_ws [] cs else cur # split_ws [] cs)
      else split_ws (cur @ [c]) cs)"

definition py_split :: "string \<Rightarrow> string list" where
  "py_split s = split_ws [] s"

text \<open>\<open>s.split(sep)\<close> for a separator that is not empty.\<close>

function split_sep :: "string \<Rightarrow> string \<Rightarrow> string \<Rightarrow> string list" where
  "split_sep sep cur [] = [cur]"
| "split_sep sep cur (c # cs) =
     (if sep \<noteq> [] \<and> starts_with (c # cs) sep
      then cur # split_sep sep [] (drop (length sep) (c # cs))
      else split_sep sep (cur @ [c]) cs)"
  by pat_completeness auto
termination
  by (relation "measure (\<lambda>(sep, cur, s). length s)") (auto simp: neq_Nil_conv)

definition py_split_sep :: "string \<Rightarrow> string \<Rightarrow> string list" where
  "py_split_sep s sep = split_sep sep [] s"

text \<open>\<open>s.lower()\<close> on ASCII letters.\<close>

definition lower_char :: "char \<Rightarrow> char" where
  "lower_char c =
     (case map_of (zip ''ABCDEFGHIJKLMNOPQRSTUVWXYZ'' ''abcdefghijklmnopqrstuvwxyz'') c of
        Some l \<Rightarrow> l
      | None \<Rightarrow> c)"

definition py_lower :: "string \<Rightarrow> string" where
  "py_lower s = map lower_char s"

text \<open>\<open>sep.join(xs)\<close>.\<close>

fun py_join :: "string \<Rightarrow> string list \<Rightarrow> string" where
  "py_join sep [] = []"
| "py_join sep [x] = x"
| "py_join sep (x # y # ys) = x @ sep @ py_join sep (y # ys)"

text \<open>\<open>xs.index(x)\<close>; \<open>None\<close> stands for the \<open>ValueError\<close>.\<close>

fun py_index :: "'a list \<Rightarrow> 'a \<Rightarrow> nat option" where
  "py_index [] x = None"
| "py_index (y # ys) x =
     (if y = x then Some 0 else (case py_index ys x of None \<Rightarrow> None | Some i \<Rightarrow> Some (Suc i)))"

text \<open>The decimal text of a number, as an f-string prints a process id.\<close>

definition digit_char :: "nat \<Rightarrow> char" where
  "digit_char d = ''0123456789'' ! d"

function show_nat :: "nat \<Rightarrow> string" where
  "show_nat n = (if n < 10 then [digit_char n] else show_nat (n div 10) @ [digit_char (n mod 10)])"
  by pat_completeness auto
termination
  by (relation "measure id") auto

declare show_nat.simps [simp del]

text \<open>
  The values tools hand back: a string (\<open>read_file\<close>), a flag (\<open>write_file\<close>,
  \<open>ask_user_confirmation\<close>) or a dictionary, in insertion order.
\<close>

datatype pyval =
    PNone
  | PBool bool
  | PInt int
  | PStr string
  | PList "pyval list"
  | PDict "(string \<times> pyval) list"

text \<open>\<open>d.get(k)\<close> and \<open>d[k] = v\<close> on insertion-ordered dictionaries.\<close>

fun dict_set :: "('k \<times> 'v) list \<Rightarrow> 'k \<Rightarrow> 'v \<Rightarrow> ('k \<times> 'v) list" where
  "dict_set [] k v = [(k, v)]"
| "dict_set ((k', v') # d) k v = (if k' = k then (k, v) # d else (k', v') # dict_set d k v)"

definition py_get :: "pyval \<Rightarrow> string \<Rightarrow> pyval option" where
  "py_get r k = (case r of PDict d \<Rightarrow> map_of d k | _ \<Rightarrow> None)"

text \<open>Python's truth value of an optional string: \<open>None\<close> and \<open>""\<close> are false.\<close>

definition truthy :: "string option \<Rightarrow> bool" where
  "truthy p = (case p of None \<Rightarrow> False | Some s \<Rightarrow> s \<noteq> [])"

text \<open>The exceptions the model tells apart, each with the text \<open>str(e)\<close> gives.\<close>

datatype exn =
    FileNotFoundError string
  | TypeError string
  | EOFError string
  | OtherException string

fun exn_str :: "exn \<Rightarrow> string" where
  "exn_str (FileNotFoundError m) = m"
| "exn_str (TypeError m) = m"
| "exn_str (EOFError m) = m"
| "exn_str (OtherException m) = m"

section \<open>Paths (POSIX)\<close>

text \<open>\<open>os.path.join(a, b)\<close> and \<open>os.path.dirname(p)\<close> of \<open>posixpath\<close>.\<close>

definition os_path_join :: "string \<Rightarrow> string \<Rightarrow> string" where
  "os_path_join a b =
     (if starts_with b ''/'' then b
      else if a = [] \<or> ends_with a ''/'' then a @ b
      else a @ ''/'' @ b)"

definition os_path_dirname :: "string \<Rightarrow> string" where
  "os_path_dirname p =
     (let head = rev (dropWhile (\<lambda>c. c \<noteq> CHR ''/'') (rev p))
      in if head \<noteq> [] \<and> \<not> list_all (\<lambda>c. c = CHR ''/'') head
         then rev (dropWhile (\<lambda>c. c = CHR ''/'') (rev head)) else head)"

section \<open>The world outside the orchestrator\<close>

text \<open>
  The filesystem is a table from the path strings handed to the operating system to
  what is stored there. A location is named by the path string itself: how the operating
  system resolves \<open>.\<close>, \<open>..\<close> and links is not modelled. \<open>io_faults\<close> lists the
  paths whose access fails (permissions, undecodable bytes), with the error's text.
\<close>

datatype node = File string | Dir

text \<open>The background process handle: \<open>running\<close> is \<open>poll() is None\<close>.\<close>

record process =
  pid :: nat
  running :: bool

text \<open>A transcript turn: a role and its parts.\<close>

datatype part =
    Text string
  | FunctionCall string "(string \<times> string) list"
  | FunctionResponse string pyval

record turn =
  role :: string
  parts :: "part list"

text \<open>
  What the external collaborators answer. \<open>subprocess.run\<close> completes with the decoded
  output, the return code and the changes the command made to the filesystem, or raises.
\<close>

datatype run_outcome =
    Completed string string int "(string \<times> node option) list"
  | RunFileNotFound
  | RunRaises string

text \<open>
  One poll of the monitoring window of the background server: whether the process has
  exited, and the raw lines its two streams delivered since the previous poll.
\<close>

record tick =
  exited :: bool
  out_lines :: "string list"
  err_lines :: "string list"

text \<open>
  \<open>subprocess.Popen\<close> raises or spawns a process; a spawned process comes with the polls
  that fit into the monitoring window and the lines that arrive while the readers are
  joined.
\<close>

datatype spawn_outcome =
    Spawned nat "tick list" "string list" "string list"
  | SpawnFileNotFound
  | SpawnRaises string

datatype wait_outcome = Exited | TimeoutExpired | WaitRaises string

text \<open>
  A reply of the model service: the parts of the response, or a failure of the call. A
  part is a text, a function call with its arguments, or neither.
\<close>

datatype response_part = RText string | RCall string "(string \<times> string) list" | REmpty

datatype llm_reply = Reply "response_part list" | SendRaises string

text \<open>
  The state the orchestrator works on: its own globals, the filesystem, and the answers
  of its collaborators, each with a count of the calls made so far. \<open>console_input\<close>
  holds the lines the operator will type; \<open>input()\<close> raises \<open>EOFError\<close> at its end.
\<close>

record world =
  CURRENT_PROJECT_PATH :: "string option"
  NG_SERVE_PROCESS :: "process option"
  conversation_history_for_this_run :: "turn list"
  chat_session :: "turn list option"
  filesystem :: "(string \<times> node) list"
  io_faults :: "(string \<times> string) list"
  console_input :: "string list"
  subprocess_run :: "nat \<Rightarrow> run_outcome"
  runs :: nat
  subprocess_Popen :: "nat \<Rightarrow> spawn_outcome"
  spawns :: nat
  process_wait :: "nat \<Rightarrow> wait_outcome"
  waits :: nat
  send_message :: "nat \<Rightarrow> llm_reply"
  sends :: nat

subsection \<open>Operating system calls\<close>

text \<open>
  Reading in text mode translates every line ending (\<open>\r\n\<close>, \<open>\r\<close>) to \<open>\n\<close>, as
  \<open>open(path, 'r')\<close> does with its default \<open>newline=None\<close>; writing on POSIX stores the
  text as given.
\<close>

fun universal_newlines :: "string \<Rightarrow> string" where
  "universal_newlines [] = []"
| "universal_newlines [c] = (if c = CHR 0x0D then [CHR 0x0A] else [c])"
| "universal_newlines (c # d # cs) =
     (if c = CHR 0x0D
      then (if d = CHR 0x0A then CHR 0x0A # universal_newlines cs
            else CHR 0x0A # universal_newlines (d # cs))
      else c # universal_newlines (d # cs))"

definition fs_remove :: "(string \<times> node) list \<Rightarrow> string \<Rightarrow> (string \<times> node) list" where
  "fs_remove fs p = filter (\<lambda>(q, n). q \<noteq> p) fs"

definition fs_apply :: "(string \<times> node) list \<Rightarrow> string \<times> node option \<Rightarrow> (string \<times> node) list" where
  "fs_apply fs ch = (case ch of (p, None) \<Rightarrow> fs_remove fs p | (p, Some n) \<Rightarrow> dict_set fs p n)"

definition os_path_exists :: "world \<Rightarrow> string \<Rightarrow> bool" where
  "os_path_exists w p = (map_of (filesystem w) p \<noteq> None)"

definition os_path_isfile :: "world \<Rightarrow> string \<Rightarrow> bool" where
  "os_path_isfile w p = (case map_of (filesystem w) p of Some (File c) \<Rightarrow> True | _ \<Rightarrow> False)"

definition os_path_isdir :: "world \<Rightarrow> string \<Rightarrow> bool" where
  "os_path_isdir w p = (map_of (filesystem w) p = Some Dir)"

definition open_read :: "world \<Rightarrow> string \<Rightarrow> exn + string" where
  "open_read w p =
     (case map_of (io_faults w) p of
        Some e \<Rightarrow> Inl (OtherException e)
      | None \<Rightarrow>
          (case map_of (filesystem w) p of
             None \<Rightarrow> Inl (FileNotFoundError (''[Errno 2] No such file or directory: '' @ p))
           | Some Dir \<Rightarrow> Inl (OtherException (''[Errno 21] Is a directory: '' @ p))
           | Some (File c) \<Rightarrow> Inr (universal_newlines c)))"

text \<open>
  \<open>os.makedirs(d, exist_ok=True)\<close>: the directory exists afterwards, or the call raises
  (the path is empty, a file is in the way, a fault). Only \<open>d\<close> itself is recorded.
\<close>

definition os_makedirs :: "world \<Rightarrow> string \<Rightarrow> exn + world" where
  "os_makedirs w d =
     (case map_of (io_faults w) d of
        Some e \<Rightarrow> Inl (OtherException e)
      | None \<Rightarrow>
          (case map_of (filesystem w) d of
             Some Dir \<Rightarrow> Inr w
           | Some (File c) \<Rightarrow> Inl (OtherException (''[Errno 17] File exists: '' @ d))
           | None \<Rightarrow>
               if d = [] then Inl (FileNotFoundError (''[Errno 2] No such file or directory: '' @ d))
               else Inr (w\<lparr>filesystem := dict_set (filesystem w) d Dir\<rparr>)))"

definition open_write :: "world \<Rightarrow> string \<Rightarrow> string \<Rightarrow> exn + world" where
  "open_write w p content =
     (case map_of (io_faults w) p of
        Some e \<Rightarrow> Inl (OtherException e)
      | None \<Rightarrow>
          (case map_of (filesystem w) p of
             Some Dir \<Rightarrow> Inl (OtherException (''[Errno 21] Is a directory: '' @ p))
           | _ \<Rightarrow> Inr (w\<lparr>filesystem := dict_set (filesystem w) p (File content)\<rparr>)))"

text \<open>The names directly under a directory, in the order of the table.\<close>

definition child_name :: "string \<Rightarrow> string \<Rightarrow> string option" where
  "child_name d q =
     (let d' = (if ends_with d ''/'' then d else d @ ''/''); n = drop (length d') q
      in if starts_with q d' \<and> n \<noteq> [] \<and> CHR ''/'' \<notin> set n then Some n else None)"

definition os_listdir :: "world \<Rightarrow> string \<Rightarrow> exn + string list" where
  "os_listdir w p =
     (case map_of (io_faults w) p of
        Some e \<Rightarrow> Inl (OtherException e)
      | None \<Rightarrow>
          (case map_of (filesystem w) p of
             None \<Rightarrow> Inl (FileNotFoundError (''[Errno 2] No such file or directory: '' @ p))
           | Some (File c) \<Rightarrow> Inl (OtherException (''[Errno 20] Not a directory: '' @ p))
           | Some Dir \<Rightarrow> Inr (List.map_filter (\<lambda>(q, n). child_name p q) (filesystem w))))"

definition os_remove :: "world \<Rightarrow> string \<Rightarrow> exn + world" where
  "os_remove w p =
     (case map_of (io_faults w) p of
        Some e \<Rightarrow> Inl (OtherException e)
      | None \<Rightarrow> Inr (w\<lparr>filesystem := fs_remove (filesystem w) p\<rparr>))"

text \<open>\<open>shutil.rmtree(p)\<close> removes the directory and everything below it.\<close>

definition shutil_rmtree :: "world \<Rightarrow> string \<Rightarrow> exn + world" where
  "shutil_rmtree w p =
     (case map_of (io_faults w) p of
        Some e \<Rightarrow> Inl (OtherException e)
      | None \<Rightarrow>
          Inr (w\<lparr>filesystem :=
                  filter (\<lambda>(q, n). q \<noteq> p \<and> \<not> starts_with q (if ends_with p ''/'' then p else p @ ''/''))
                    (filesystem w)\<rparr>))"

section \<open>The tools\<close>

text \<open>
  Each tool is the function of the source of the same name, on the world. What a tool
  prints on the console is left out; what it returns and what it changes is kept.
\<close>

subsection \<open>Files\<close>

definition read_file :: "world \<Rightarrow> string \<Rightarrow> string" where
  "read_file w relative_filepath =
     (case CURRENT_PROJECT_PATH w of
        None \<Rightarrow> ''Error: CURRENT_PROJECT_PATH is not set. Cannot read file.''
      | Some root \<Rightarrow>
          if root = [] then ''Error: CURRENT_PROJECT_PATH is not set. Cannot read file.''
          else let full_path = os_path_join root relative_filepath in
            (case open_read w full_path of
               Inr content \<Rightarrow> content
             | Inl (FileNotFoundError m) \<Rightarrow> ''Error: File not found at '' @ full_path
             | Inl e \<Rightarrow> ''Error reading file '' @ full_path @ '': '' @ exn_str e))"

definition write_file :: "world \<Rightarrow> string \<Rightarrow> string \<Rightarrow> bool \<times> world" where
  "write_file w relative_filepath content =
     (case CURRENT_PROJECT_PATH w of
        None \<Rightarrow> (False, w)
      | Some root \<Rightarrow>
          if root = [] then (False, w)
          else let full_path = os_path_join root relative_filepath in
            (case os_makedirs w (os_path_dirname full_path) of
               Inl e \<Rightarrow> (False, w)
             | Inr w1 \<Rightarrow>
                 (case open_write w1 full_path content of
                    Inl e \<Rightarrow> (False, w1)
                  | Inr w2 \<Rightarrow> (True, w2))))"

definition list_directory_contents :: "world \<Rightarrow> string \<Rightarrow> pyval" where
  "list_directory_contents w relative_path =
     (case CURRENT_PROJECT_PATH w of
        None \<Rightarrow> PDict [(''error'', PStr ''CURRENT_PROJECT_PATH is not set.''), (''contents'', PList [])]
      | Some root \<Rightarrow>
          if root = []
          then PDict [(''error'', PStr ''CURRENT_PROJECT_PATH is not set.''), (''contents'', PList [])]
          else let full_path = os_path_join root relative_path in
            (case os_listdir w full_path of
               Inr items \<Rightarrow>
                 PDict [(''success'', PBool True), (''path'', PStr full_path),
                   (''contents'',
                     PList (map (\<lambda>item.
                       PDict [(''name'', PStr item),
                         (''type'', PStr (if os_path_isdir w (os_path_join full_path item)
                                         then ''directory'' else ''file''))]) items))]
             | Inl (FileNotFoundError m) \<Rightarrow>
                 PDict [(''error'', PStr (''Directory not found at '' @ full_path)),
                   (''contents'', PList [])]
             | Inl e \<Rightarrow>
                 PDict [(''error'', PStr (''Error listing directory '' @ full_path @ '': '' @ exn_str e)),
                   (''contents'', PList [])]))"

definition delete_file_or_directory :: "world \<Rightarrow> string \<Rightarrow> pyval \<times> world" where
  "delete_file_or_directory w relative_path =
     (case CURRENT_PROJECT_PATH w of
        None \<Rightarrow>
          (PDict [(''status'', PStr ''error''), (''message'', PStr ''CURRENT_PROJECT_PATH is not set.'')], w)
      | Some root \<Rightarrow>
          if root = []
          then (PDict [(''status'', PStr ''error''), (''message'', PStr ''CURRENT_PROJECT_PATH is not set.'')], w)
          else let full_path = os_path_join root relative_path in
            if \<not> os_path_exists w full_path
            then (PDict [(''status'', PStr ''error''), (''message'', PStr (''Path not found: '' @ full_path))], w)
            else if os_path_isfile w full_path
            then (case os_remove w full_path of
                    Inr w1 \<Rightarrow>
                      (PDict [(''status'', PStr ''success''),
                         (''message'', PStr (''Successfully deleted file: '' @ full_path))], w1)
                  | Inl e \<Rightarrow>
                      (PDict [(''status'', PStr ''error''),
                         (''message'', PStr (''Error deleting '' @ full_path @ '': '' @ exn_str e))], w))
            else if os_path_isdir w full_path
            then (case shutil_rmtree w full_path of
                    Inr w1 \<Rightarrow>
                      (PDict [(''status'', PStr ''success''),
                         (''message'',
                           PStr (''Successfully deleted directory (and its contents): '' @ full_path))], w1)
                  | Inl e \<Rightarrow>
                      (PDict [(''status'', PStr ''error''),
                         (''message'', PStr (''Error deleting '' @ full_path @ '': '' @ exn_str e))], w))
            else (PDict [(''status'', PStr ''error''),
                    (''message'', PStr (''Path is not a file or directory: '' @ full_path))], w))"

subsection \<open>Run-to-completion commands\<close>

text \<open>How an f-string prints an optional directory.\<close>

definition str_of_opt :: "string option \<Rightarrow> string" where
  "str_of_opt d = (case d of None \<Rightarrow> ''None'' | Some s \<Rightarrow> s)"

text \<open>
  The project name \<open>execute_shell_command\<close> reads from a successful \<open>ng new\<close>: the word
  after the first word \<open>new\<close>, unless it starts with \<open>--\<close>.
\<close>

definition project_name_after_new :: "string \<Rightarrow> string option" where
  "project_name_after_new cmd =
     (let ws = py_split cmd in
      case py_index ws ''new'' of
        None \<Rightarrow> None
      | Some i \<Rightarrow>
          if i + 1 < length ws
          then (if starts_with (ws ! (i + 1)) ''--'' then None else Some (ws ! (i + 1)))
          else None)"

definition execute_shell_command :: "world \<Rightarrow> string \<Rightarrow> string option \<Rightarrow> pyval \<times> world" where
  "execute_shell_command w cmd working_directory =
     (let resolved_working_directory =
            (case working_directory of
               Some d \<Rightarrow> Some d
             | None \<Rightarrow> if truthy (CURRENT_PROJECT_PATH w) then CURRENT_PROJECT_PATH w else None)
      in
      if working_directory = None \<and> \<not> truthy (CURRENT_PROJECT_PATH w) \<and> \<not> py_in ''ng new'' cmd
      then (PDict [(''stdout'', PStr []), (''stderr'', PStr ''Error: Working directory not set.''),
                   (''exit_code'', PInt 1)], w)
      else
        let is_ng_new_command = py_in ''ng new'' cmd;
            w1 = w\<lparr>runs := Suc (runs w)\<rparr>
        in
        (case subprocess_run w (runs w) of
           RunFileNotFound \<Rightarrow>
             (PDict [(''stdout'', PStr []),
                (''stderr'', PStr (''Error: Command or path incorrect. Could not execute in '' @
                   [CHR 0x27] @ str_of_opt resolved_working_directory @ [CHR 0x27] @ ''.'')),
                (''exit_code'', PInt 127)], w1)
         | RunRaises e \<Rightarrow>
             (PDict [(''stdout'', PStr []),
                (''stderr'', PStr (''An error occurred while executing command '' @
                   [CHR 0x27] @ cmd @ [CHR 0x27] @ '': '' @ e)),
                (''exit_code'', PInt 1)], w1)
         | Completed stdout_str stderr_str returncode changes \<Rightarrow>
             let w2 = w1\<lparr>filesystem := foldl fs_apply (filesystem w1) changes\<rparr>;
                 result_dict = [(''stdout'', PStr stdout_str), (''stderr'', PStr stderr_str),
                                (''exit_code'', PInt returncode)]
             in
             if is_ng_new_command \<and> returncode = 0
             then
               (case (project_name_after_new cmd, resolved_working_directory) of
                  (Some project_name, Some original) \<Rightarrow>
                    if project_name \<noteq> [] \<and> original \<noteq> []
                    then
                      let new_project_full_path = os_path_join original project_name in
                      if os_path_isdir w2 new_project_full_path
                      then (PDict (result_dict @
                                   [(''new_project_path_set'', PStr new_project_full_path),
                                    (''context_changed_project_path'', PBool True)]),
                            w2\<lparr>CURRENT_PROJECT_PATH := Some new_project_full_path\<rparr>)
                      else (PDict (dict_set result_dict ''stderr''
                                     (PStr (py_strip (stderr_str @
                                        '' Warning: Project directory not found post-execution.'')))),
                            w2)
                    else (PDict result_dict, w2)
                | _ \<Rightarrow> (PDict result_dict, w2))
             else (PDict result_dict, w2)))"

subsection \<open>The background server\<close>

text \<open>
  The reader threads strip each raw line, drop the empty ones and queue the rest under
  the upper-case name of their stream.
\<close>

definition reader_lines :: "string \<Rightarrow> string list \<Rightarrow> string list" where
  "reader_lines stream_name raw =
     map (\<lambda>l. ''['' @ stream_name @ ''] '' @ l) (filter (\<lambda>l. l \<noteq> []) (map py_strip raw))"

record monitor =
  status :: string
  stdout_queue :: "string list"
  stderr_queue :: "string list"
  collected_stdout :: "string list"
  collected_stderr :: "string list"
  seen_exit :: bool

text \<open>The markers looked for in a line of standard output.\<close>

definition success_marker :: "string \<Rightarrow> bool" where
  "success_marker l = (py_in ''Compiled successfully'' l \<or> py_in ''successfully built'' (py_lower l))"

text \<open>
  The inner loop over the queue of standard output: lines are taken until one carries a
  success marker; that line is taken too and the rest stays queued. The result is the
  lines taken, the lines left, and whether a marker was met.
\<close>

fun scan_stdout :: "string list \<Rightarrow> string list \<times> string list \<times> bool" where
  "scan_stdout [] = ([], [], False)"
| "scan_stdout (l # ls) =
     (if success_marker l
      then ([l], ls, True)
      else (case scan_stdout ls of (taken, left, found) \<Rightarrow> (l # taken, left, found)))"

definition error_line :: "string \<Rightarrow> bool" where
  "error_line l = (py_in ''ERROR'' l \<or> py_in ''Error'' l)"

text \<open>
  One pass of the monitoring loop per poll, until the window ends or the loop breaks.
  The lines of a poll are queued before the loop looks at the process.
\<close>

fun monitor_loop :: "tick list \<Rightarrow> monitor \<Rightarrow> monitor" where
  "monitor_loop [] m = m"
| "monitor_loop (t # ts) m =
     (let m0 = m\<lparr>stdout_queue := stdout_queue m @ reader_lines ''STDOUT'' (out_lines t),
                 stderr_queue := stderr_queue m @ reader_lines ''STDERR'' (err_lines t)\<rparr>
      in
      if exited t then m0\<lparr>status := ''error_during_startup'', seen_exit := True\<rparr>
      else
        (case scan_stdout (stdout_queue m0) of
           (taken, left, found) \<Rightarrow>
             let m1 = m0\<lparr>collected_stdout := collected_stdout m0 @ taken, stdout_queue := left,
                         status := (if found then ''compiled_successfully'' else status m0)\<rparr>;
                 m2 = m1\<lparr>collected_stderr := collected_stderr m1 @ stderr_queue m1, stderr_queue := [],
                         status := (if list_ex error_line (stderr_queue m1)
                                    then ''error_during_startup'' else status m1)\<rparr>
             in if status m2 = ''compiled_successfully'' then m2 else monitor_loop ts m2))"

definition alive :: "world \<Rightarrow> bool" where
  "alive w = (case NG_SERVE_PROCESS w of None \<Rightarrow> False | Some p \<Rightarrow> running p)"

definition serve_error :: "string \<Rightarrow> string \<Rightarrow> pyval" where
  "serve_error msg err_log =
     PDict [(''status'', PStr ''error''), (''message'', PStr msg), (''pid'', PNone),
            (''initial_stdout_log'', PStr []), (''initial_stderr_log'', PStr err_log)]"

definition final_status :: "string \<Rightarrow> string" where
  "final_status s =
     (if s = ''compiled_successfully'' then s
      else if s = ''error_during_startup'' then s
      else ''compiling_or_timeout'')"

definition final_message :: "string \<Rightarrow> string \<Rightarrow> string \<Rightarrow> string" where
  "final_message cmd s monitor_duration_seconds =
     ''Angular serve command '' @ [CHR 0x27] @ cmd @ [CHR 0x27] @ '' initiated. '' @
     (if s = ''compiled_successfully''
      then ''Initial compilation reported as successful. Monitor terminal for ongoing logs. App should be at http://localhost:4200.''
      else if s = ''error_during_startup''
      then ''Errors detected during initial startup. See logs. Monitor terminal for ongoing logs.''
      else ''Initial monitoring period of '' @ monitor_duration_seconds @ ''s ended. Status is '' @
           [CHR 0x27] @ ''compiling_or_timeout'' @ [CHR 0x27] @
           ''. Monitor terminal for ongoing logs and report any errors. App may be at http://localhost:4200 if compilation completes.'')"

text \<open>
  The part of the tool after its two guards: spawn, watch the output for the monitoring
  window, drain what is left and report.
\<close>

definition spawn_and_monitor :: "world \<Rightarrow> string \<Rightarrow> string option \<Rightarrow> string \<Rightarrow> pyval \<times> world" where
  "spawn_and_monitor w cmd resolved_working_directory monitor_duration_seconds =
     (let w1 = w\<lparr>spawns := Suc (spawns w)\<rparr> in
      case subprocess_Popen w (spawns w) of
        SpawnFileNotFound \<Rightarrow>
          (let err_msg = ''Error: Command or path incorrect. Could not execute in '' @
                 [CHR 0x27] @ str_of_opt resolved_working_directory @ [CHR 0x27] @ ''.''
           in (serve_error err_msg err_msg, w1))
      | SpawnRaises e \<Rightarrow>
          (serve_error (''An error occurred while starting command '' @
                          [CHR 0x27] @ cmd @ [CHR 0x27] @ '': '' @ e) e, w1)
      | Spawned new_pid ticks late_out late_err \<Rightarrow>
          (let m = monitor_loop ticks
                     \<lparr>status = ''compiling'', stdout_queue = [], stderr_queue = [],
                      collected_stdout = [], collected_stderr = [], seen_exit = False\<rparr>;
               all_stdout = collected_stdout m @ stdout_queue m @ reader_lines ''STDOUT'' late_out;
               all_stderr = collected_stderr m @ stderr_queue m @ reader_lines ''STDERR'' late_err
           in (PDict [(''status'', PStr (final_status (status m))), (''command'', PStr cmd),
                 (''pid'', PInt (int new_pid)),
                 (''message'', PStr (final_message cmd (status m) monitor_duration_seconds)),
                 (''initial_stdout_log'', PStr (py_join [CHR 0x0A] all_stdout)),
                 (''initial_stderr_log'', PStr (py_join [CHR 0x0A] all_stderr))],
               w1\<lparr>NG_SERVE_PROCESS := Some \<lparr>pid = new_pid, running = \<not> seen_exit m\<rparr>\<rparr>)))"

definition start_angular_serve_and_get_initial_output ::
    "world \<Rightarrow> string \<Rightarrow> string option \<Rightarrow> string \<Rightarrow> pyval \<times> world" where
  "start_angular_serve_and_get_initial_output w cmd working_directory monitor_duration_seconds =
     (if working_directory = None \<and> \<not> truthy (CURRENT_PROJECT_PATH w)
      then (serve_error ''Working directory not set.'' [], w)
      else
        let resolved_working_directory =
              (case working_directory of Some d \<Rightarrow> Some d | None \<Rightarrow> CURRENT_PROJECT_PATH w)
        in
        (case NG_SERVE_PROCESS w of
           Some p \<Rightarrow>
             if running p
             then (PDict [(''status'', PStr ''already_running''), (''command'', PStr ''ng serve''),
                     (''pid'', PInt (int (pid p))),
                     (''message'', PStr ('''ng serve' (PID: '' @ show_nat (pid p) @
                        '') seems to be already running. Please use 'stop server' first if you want to restart.'')),
                     (''initial_stdout_log'', PStr []), (''initial_stderr_log'', PStr [])], w)
             else spawn_and_monitor w cmd resolved_working_directory monitor_duration_seconds
         | None \<Rightarrow> spawn_and_monitor w cmd resolved_working_directory monitor_duration_seconds))"

definition stop_angular_server :: "world \<Rightarrow> pyval \<times> world" where
  "stop_angular_server w =
     (if alive w
      then
        (let w1 = w\<lparr>waits := Suc (waits w)\<rparr> in
         case process_wait w (waits w) of
           Exited \<Rightarrow>
             (PDict [(''status'', PStr ''stopped''),
                (''message'', PStr '''ng serve' process terminated successfully.'')],
              w1\<lparr>NG_SERVE_PROCESS := None\<rparr>)
         | TimeoutExpired \<Rightarrow>
             (PDict [(''status'', PStr ''killed''), (''message'', PStr '''ng serve' process killed.'')],
              w1\<lparr>NG_SERVE_PROCESS := None\<rparr>)
         | WaitRaises e \<Rightarrow>
             (PDict [(''status'', PStr ''error''),
                (''message'', PStr (''Error stopping 'ng serve': '' @ e))], w1))
      else (PDict [(''status'', PStr ''not_running''),
              (''message'', PStr '''ng serve' process not found or not running.'')], w))"

subsection \<open>Confirmation by the operator\<close>

text \<open>
  \<open>ask_user_confirmation\<close> reads lines until one is \<open>yes\<close> or \<open>no\<close>; at the end of the
  input \<open>input()\<close> raises, and the tool does not catch it.
\<close>

fun ask_user_confirmation :: "string list \<Rightarrow> exn + bool \<times> string list" where
  "ask_user_confirmation [] = Inl (EOFError ''EOF when reading a line'')"
| "ask_user_confirmation (l # ls) =
     (let response = py_strip (py_lower l) in
      if response = ''yes'' then Inr (True, ls)
      else if response = ''no'' then Inr (False, ls)
      else ask_user_confirmation ls)"

section \<open>The tool registry\<close>

definition available_tools_python_functions :: "string list" where
  "available_tools_python_functions =
     [''execute_shell_command'', ''start_angular_serve_and_get_initial_output'',
      ''stop_angular_server'', ''write_file'', ''read_file'', ''list_directory_contents'',
      ''delete_file_or_directory'', ''ask_user_confirmation'']"

definition MAX_ERROR_FIX_ATTEMPTS :: nat where
  "MAX_ERROR_FIX_ATTEMPTS = 3"

text \<open>The parameter names of each tool's Python function.\<close>

definition tool_parameters :: "string \<Rightarrow> string list" where
  "tool_parameters tool_name =
     (if tool_name = ''execute_shell_command'' then [''command'', ''working_directory'']
      else if tool_name = ''start_angular_serve_and_get_initial_output''
      then [''command'', ''working_directory'', ''monitor_duration_seconds'']
      else if tool_name = ''stop_angular_server'' then []
      else if tool_name = ''write_file'' then [''relative_filepath'', ''content'']
      else if tool_name = ''read_file'' then [''relative_filepath'']
      else if tool_name = ''list_directory_contents'' then [''relative_path'']
      else if tool_name = ''delete_file_or_directory'' then [''relative_path'']
      else if tool_name = ''ask_user_confirmation'' then [''prompt_message'']
      else [])"

definition missing_argument :: "string \<Rightarrow> string \<Rightarrow> exn" where
  "missing_argument tool_name p =
     TypeError (tool_name @ ''() missing 1 required positional argument: '' @ p)"

text \<open>
  \<open>tool_function(**tool_args_dict)\<close>: the call of a registered tool with the arguments of
  the model as keywords. The values are taken to be of the types the schema declares
  (text; the monitoring duration by its decimal text). A keyword the function does not
  have, or a required parameter without a value, raises \<open>TypeError\<close> before the tool
  runs; the text of the exception is kept short.
\<close>

definition tool_function :: "world \<Rightarrow> string \<Rightarrow> (string \<times> string) list \<Rightarrow> (exn + pyval) \<times> world" where
  "tool_function w tool_name kwargs =
     (if list_ex (\<lambda>(k, v). k \<notin> set (tool_parameters tool_name)) kwargs
      then (Inl (TypeError (tool_name @ ''() got an unexpected keyword argument'')), w)
      else if tool_name = ''execute_shell_command''
      then (case map_of kwargs ''command'' of
              None \<Rightarrow> (Inl (missing_argument tool_name ''command''), w)
            | Some cmd \<Rightarrow>
                (case execute_shell_command w cmd (map_of kwargs ''working_directory'') of
                   (r, w1) \<Rightarrow> (Inr r, w1)))
      else if tool_name = ''start_angular_serve_and_get_initial_output''
      then (case map_of kwargs ''command'' of
              None \<Rightarrow> (Inl (missing_argument tool_name ''command''), w)
            | Some cmd \<Rightarrow>
                (case start_angular_serve_and_get_initial_output w cmd
                        (map_of kwargs ''working_directory'')
                        (case map_of kwargs ''monitor_duration_seconds'' of
                           None \<Rightarrow> ''20'' | Some d \<Rightarrow> d) of
                   (r, w1) \<Rightarrow> (Inr r, w1)))
      else if tool_name = ''stop_angular_server''
      then (case stop_angular_server w of (r, w1) \<Rightarrow> (Inr r, w1))
      else if tool_name = ''write_file''
      then (case map_of kwargs ''relative_filepath'' of
              None \<Rightarrow> (Inl (missing_argument tool_name ''relative_filepath''), w)
            | Some p \<Rightarrow>
                (case map_of kwargs ''content'' of
                   None \<Rightarrow> (Inl (missing_argument tool_name ''content''), w)
                 | Some c \<Rightarrow> (case write_file w p c of (ok, w1) \<Rightarrow> (Inr (PBool ok), w1))))
      else if tool_name = ''read_file''
      then (case map_of kwargs ''relative_filepath'' of
              None \<Rightarrow> (Inl (missing_argument tool_name ''relative_filepath''), w)
            | Some p \<Rightarrow> (Inr (PStr (read_file w p)), w))
      else if tool_name = ''list_directory_contents''
      then (Inr (list_directory_contents w
                   (case map_of kwargs ''relative_path'' of None \<Rightarrow> ''.'' | Some p \<Rightarrow> p)), w)
      else if tool_name = ''delete_file_or_directory''
      then (case map_of kwargs ''relative_path'' of
              None \<Rightarrow> (Inl (missing_argument tool_name ''relative_path''), w)
            | Some p \<Rightarrow> (case delete_file_or_directory w p of (r, w1) \<Rightarrow> (Inr r, w1)))
      else if tool_name = ''ask_user_confirmation''
      then (case map_of kwargs ''prompt_message'' of
              None \<Rightarrow> (Inl (missing_argument tool_name ''prompt_message''), w)
            | Some m \<Rightarrow>
                (case ask_user_confirmation (console_input w) of
                   Inl e \<Rightarrow> (Inl e, w\<lparr>console_input := []\<rparr>)
                 | Inr (answer, rest) \<Rightarrow> (Inr (PBool answer), w\<lparr>console_input := rest\<rparr>)))
      else (Inl (OtherException (''KeyError: '' @ tool_name)), w))"

section \<open>The chat session\<close>

text \<open>
  The standing instructions embed the project path as text. Of the policy text only the
  sentence with the path is kept here; the rest is elided.
\<close>

definition effective_system_prompt :: "string option \<Rightarrow> string" where
  "effective_system_prompt p =
     ''You are an expert Angular development assistant AI. ... The current Angular project path you should operate on is: ''
     @ [CHR 0x27]
     @ (if truthy p then str_of_opt p else ''Not set (User needs to provide if task requires it)'')
     @ [CHR 0x27] @ ''. ...''"

definition initial_history_for_session :: "string option \<Rightarrow> turn list" where
  "initial_history_for_session p =
     [\<lparr>role = ''user'', parts = [Text (effective_system_prompt p)]\<rparr>,
      \<lparr>role = ''model'', parts = [Text ''Understood. I am an expert Angular development assistant. ... I'm ready for your command.'']\<rparr>]"

definition initialize_global_chat_session :: "world \<Rightarrow> world" where
  "initialize_global_chat_session w =
     w\<lparr>chat_session := Some (initial_history_for_session (CURRENT_PROJECT_PATH w)),
       conversation_history_for_this_run := initial_history_for_session (CURRENT_PROJECT_PATH w)\<rparr>"

section \<open>The turn loop\<close>

subsection \<open>Dispatch of one requested call\<close>

text \<open>
  The dictionary of arguments of a call is the one stored in the transcript. The loop
  writes the chosen parent directory into it before an \<open>ng new\<close>; the model below
  passes the updated arguments to the tool and leaves the stored turn as it is.
\<close>

definition pd_set :: "pyval \<Rightarrow> string \<Rightarrow> pyval \<Rightarrow> pyval" where
  "pd_set r k v = (case r of PDict d \<Rightarrow> PDict (dict_set d k v) | _ \<Rightarrow> r)"

text \<open>The project name the loop reads from an \<open>ng new\<close> command.\<close>

definition project_name_of :: "string \<Rightarrow> string" where
  "project_name_of cmd_to_run =
     (case py_split_sep cmd_to_run ''ng new'' of
        a # b # rest \<Rightarrow> (case py_split_sep (py_strip b) '' '' of x # xs \<Rightarrow> x | [] \<Rightarrow> [])
      | _ \<Rightarrow> [])"

text \<open>
  After an \<open>ng new\<close> that returned: when it reports exit code 0 and the new directory
  exists, the project path moves there, and the session is initialised again if the
  path changed.
\<close>

definition after_ng_new :: "world \<Rightarrow> pyval \<Rightarrow> string \<Rightarrow> string option \<Rightarrow> pyval \<times> world" where
  "after_ng_new w r project_name actual_exec_dir =
     (case actual_exec_dir of
        None \<Rightarrow> (r, w)
      | Some d \<Rightarrow>
          if py_get r ''exit_code'' = Some (PInt 0) \<and> project_name \<noteq> [] \<and> d \<noteq> []
          then
            let new_project_full_path = os_path_join d project_name in
            if os_path_isdir w new_project_full_path
            then
              let old_project_path = CURRENT_PROJECT_PATH w;
                  w1 = w\<lparr>CURRENT_PROJECT_PATH := Some new_project_full_path\<rparr>
              in (pd_set r ''new_project_path_set'' (PStr new_project_full_path),
                  if old_project_path \<noteq> Some new_project_full_path
                  then initialize_global_chat_session w1 else w1)
            else
              (case py_get r ''stderr'' of
                 None \<Rightarrow>
                   (pd_set r ''stderr''
                      (PStr (py_strip '' Warning: Project directory not found post-execution.'')), w)
               | Some v \<Rightarrow>
                   if v = PStr []
                   then (pd_set r ''stderr''
                           (PStr (py_strip '' Warning: Project directory not found post-execution.'')), w)
                   else (r, w))
          else (r, w))"

definition ng_new_dispatch :: "world \<Rightarrow> (string \<times> string) list \<Rightarrow> (exn + pyval) \<times> world" where
  "ng_new_dispatch w tool_args_dict =
     (let cmd_to_run = (case map_of tool_args_dict ''command'' of None \<Rightarrow> [] | Some c \<Rightarrow> c);
          project_name = project_name_of cmd_to_run;
          working_dir_from_llm = map_of tool_args_dict ''working_directory''
      in
      if \<not> truthy working_dir_from_llm
      then
        (case console_input w of
           [] \<Rightarrow> (Inl (EOFError ''EOF when reading a line''), w)
         | l # ls \<Rightarrow>
             let parent_dir_for_new_project = py_strip l;
                 w1 = w\<lparr>console_input := ls\<rparr>
             in
             if \<not> os_path_isdir w1 parent_dir_for_new_project
             then (case after_ng_new w1
                          (PDict [(''error'', PStr (''Invalid parent directory for 'ng new': '' @
                                     parent_dir_for_new_project)),
                                  (''exit_code'', PInt 1)])
                          project_name working_dir_from_llm of
                     (r, w2) \<Rightarrow> (Inr r, w2))
             else
               (case tool_function w1 ''execute_shell_command''
                        (dict_set tool_args_dict ''working_directory'' parent_dir_for_new_project) of
                  (Inl e, w2) \<Rightarrow> (Inl e, w2)
                | (Inr r, w2) \<Rightarrow>
                    (case after_ng_new w2 r project_name (Some parent_dir_for_new_project) of
                       (r', w3) \<Rightarrow> (Inr r', w3))))
      else
        (case tool_function w ''execute_shell_command'' tool_args_dict of
           (Inl e, w2) \<Rightarrow> (Inl e, w2)
         | (Inr r, w2) \<Rightarrow>
             (case after_ng_new w2 r project_name working_dir_from_llm of
                (r', w3) \<Rightarrow> (Inr r', w3))))"

text \<open>
  The result of one requested call, \<open>Inl\<close> when the call raises: an unregistered name
  gets the unknown-tool payload, an \<open>ng new\<close> command its own path, every other call goes
  to the tool.
\<close>

definition dispatch :: "world \<Rightarrow> string \<Rightarrow> (string \<times> string) list \<Rightarrow> (exn + pyval) \<times> world" where
  "dispatch w tool_name tool_args_dict =
     (if tool_name \<notin> set available_tools_python_functions
      then (Inr (PDict [(''error'', PStr (''Unknown tool: '' @ tool_name))]), w)
      else if tool_name = ''execute_shell_command'' \<and>
              py_in ''ng new'' (case map_of tool_args_dict ''command'' of None \<Rightarrow> [] | Some c \<Rightarrow> c)
      then ng_new_dispatch w tool_args_dict
      else tool_function w tool_name tool_args_dict)"

subsection \<open>The error-recovery tracker\<close>

record failed_command_details =
  failed_command :: string
  failed_args :: "(string \<times> string) list"
  failed_tool_name :: string

record tracker =
  original_failed_command_details :: "failed_command_details option"
  current_fix_attempt :: nat

text \<open>\<open>is_error\<close> and \<open>command_that_failed\<close> of a tool result.\<close>

definition is_error :: "string \<Rightarrow> pyval \<Rightarrow> bool" where
  "is_error tool_name r =
     (if tool_name = ''execute_shell_command'' \<and>
         (case py_get r ''exit_code'' of None \<Rightarrow> PInt 0 | Some v \<Rightarrow> v) \<noteq> PInt 0
      then True
      else if tool_name = ''start_angular_serve_and_get_initial_output'' \<and>
              py_get r ''status'' = Some (PStr ''error_during_startup'')
      then True
      else if tool_name = ''delete_file_or_directory'' \<and> py_get r ''status'' = Some (PStr ''error'')
      then True
      else False)"

definition command_that_failed :: "string \<Rightarrow> (string \<times> string) list \<Rightarrow> pyval \<Rightarrow> string option" where
  "command_that_failed tool_name tool_args_dict r =
     (if tool_name = ''execute_shell_command'' \<and>
         (case py_get r ''exit_code'' of None \<Rightarrow> PInt 0 | Some v \<Rightarrow> v) \<noteq> PInt 0
      then map_of tool_args_dict ''command''
      else if tool_name = ''start_angular_serve_and_get_initial_output'' \<and>
              py_get r ''status'' = Some (PStr ''error_during_startup'')
      then map_of tool_args_dict ''command''
      else None)"

definition track :: "tracker \<Rightarrow> string \<Rightarrow> (string \<times> string) list \<Rightarrow> pyval \<Rightarrow> tracker" where
  "track t tool_name tool_args_dict r =
     (case (is_error tool_name r, command_that_failed tool_name tool_args_dict r) of
        (True, Some c) \<Rightarrow>
          if c \<noteq> []
          then
            let t1 = (case original_failed_command_details t of
                        None \<Rightarrow>
                          \<lparr>original_failed_command_details =
                             Some \<lparr>failed_command = c, failed_args = tool_args_dict,
                                   failed_tool_name = tool_name\<rparr>,
                           current_fix_attempt = 0\<rparr>
                      | Some d \<Rightarrow>
                          if failed_command d \<noteq> c
                          then \<lparr>original_failed_command_details =
                                  Some \<lparr>failed_command = c, failed_args = tool_args_dict,
                                        failed_tool_name = tool_name\<rparr>,
                                current_fix_attempt = 0\<rparr>
                          else t)
            in if current_fix_attempt t1 < MAX_ERROR_FIX_ATTEMPTS
               then t1\<lparr>current_fix_attempt := current_fix_attempt t1 + 1\<rparr>
               else t1\<lparr>original_failed_command_details := None\<rparr>
          else t
      | (True, None) \<Rightarrow> t
      | (False, x) \<Rightarrow>
          (case original_failed_command_details t of
             None \<Rightarrow> t
           | Some d \<Rightarrow>
               if map_of tool_args_dict ''command'' = Some (failed_command d)
               then \<lparr>original_failed_command_details = None, current_fix_attempt = 0\<rparr>
               else t))"

subsection \<open>One batch of calls\<close>

text \<open>
  The body of the \<open>for\<close> loop: dispatch the call, append its result part, update the
  tracker. A call that raises ends the batch.
\<close>

definition handle_call ::
    "world \<Rightarrow> tracker \<Rightarrow> part list \<Rightarrow> string \<times> (string \<times> string) list \<Rightarrow>
     (exn + tracker \<times> part list) \<times> world" where
  "handle_call w t tool_response_parts_for_api fc_data =
     (case fc_data of (tool_name, tool_args_dict) \<Rightarrow>
        (case dispatch w tool_name tool_args_dict of
           (Inl e, w1) \<Rightarrow> (Inl e, w1)
         | (Inr function_result_dict, w1) \<Rightarrow>
             (Inr (track t tool_name tool_args_dict function_result_dict,
                   tool_response_parts_for_api @ [FunctionResponse tool_name function_result_dict]),
              w1)))"

fun for_calls ::
    "world \<Rightarrow> tracker \<Rightarrow> part list \<Rightarrow> (string \<times> (string \<times> string) list) list \<Rightarrow>
     (exn + tracker \<times> part list) \<times> world" where
  "for_calls w t acc [] = (Inr (t, acc), w)"
| "for_calls w t acc (fc_data # rest) =
     (case handle_call w t acc fc_data of
        (Inl e, w1) \<Rightarrow> (Inl e, w1)
      | (Inr (t1, acc1), w1) \<Rightarrow> for_calls w1 t1 acc1 rest)"

subsection \<open>Talking to the model\<close>







subsection \<open>The loop\<close>



subsection \<open>Input augmentation\<close>





subsection \<open>One user turn\<close>


section \<open>Notions used in the statements\<close>




text \<open>
  A world for concrete runs: no project path, no server, an empty transcript, an empty
  filesystem, no console input, and collaborators that always give the same answer.
\<close>

definition idle_world :: world where
  "idle_world =
     \<lparr>CURRENT_PROJECT_PATH = None, NG_SERVE_PROCESS = None,
      conversation_history_for_this_run = [], chat_session = Some [],
      filesystem = [], io_faults = [], console_input = [],
      subprocess_run = (\<lambda>n. Completed [] [] 0 []), runs = 0,
      subprocess_Popen = (\<lambda>n. Spawned 4242 [] [] []), spawns = 0,
      process_wait = (\<lambda>n. Exited), waits = 0,
      send_message = (\<lambda>n. Reply []), sends = 0\<rparr>"





text \<open>A world with a live background server and no project path.\<close>

definition serving_world :: world where
  "serving_world = idle_world\<lparr>NG_SERVE_PROCESS := Some \<lparr>pid = 4242, running = True\<rparr>\<rparr>"

text \<open>A world with the project path \<open>/proj\<close> and one file outside the project.\<close>

definition project_world :: world where
  "project_world =
     idle_world\<lparr>CURRENT_PROJECT_PATH := Some ''/proj'',
                filesystem := [(''/proj'', Dir), (''/etc/passwd'', File ''root:x'')]\<rparr>"

section \<open>Properties of the error-recovery tracker\<close>







section \<open>Batches of tool calls\<close>


lemma for_calls_step:
  "for_calls w t acc ((n, a) # rest) =
     (case dispatch w n a of
        (Inl e, w1) \<Rightarrow> (Inl e, w1)
      | (Inr r, w1) \<Rightarrow> for_calls w1 (track t n a r) (acc @ [FunctionResponse n r]) rest)"
  by (simp add: handle_call_def split: prod.splits sum.splits)













section \<open>Calls to unregistered tools\<close>




section \<open>Exceptions\<close>





section \<open>The background server\<close>

text \<open>
  C4, as the code has it. While the background process handle refers to a live process,
  a call to the start tool spawns nothing: the world, and with it the handle and the
  count of spawned processes, stays as it is. When a working directory is given or the
  project path is set, the result has the status \<open>already_running\<close> and the process id
  of the live process. When no working directory is given and the project path is not
  set, the first guard of the tool answers instead, with the status \<open>error\<close> and the
  message that the working directory is not set.
\<close>

theorem start_while_alive:
  assumes "NG_SERVE_PROCESS w = Some p" and "running p"
  shows "snd (start_angular_serve_and_get_initial_output w cmd wd dur) = w
       \<and> (wd \<noteq> None \<or> truthy (CURRENT_PROJECT_PATH w) \<longrightarrow>
            py_get (fst (start_angular_serve_and_get_initial_output w cmd wd dur)) ''status''
              = Some (PStr ''already_running'') \<and>
            py_get (fst (start_angular_serve_and_get_initial_output w cmd wd dur)) ''pid''
              = Some (PInt (int (pid p))))
       \<and> (wd = None \<and> \<not> truthy (CURRENT_PROJECT_PATH w) \<longrightarrow>
            fst (start_angular_serve_and_get_initial_output w cmd wd dur)
              = serve_error ''Working directory not set.'' [])"
  using assms
  by (auto simp: start_angular_serve_and_get_initial_output_def py_get_def Let_def)

text \<open>A second start with a working directory, while process 4242 is alive.\<close>

theorem start_while_alive_witness:
  "NG_SERVE_PROCESS serving_world = Some \<lparr>pid = 4242, running = True\<rparr>
   \<and> snd (start_angular_serve_and_get_initial_output serving_world ''ng serve'' (Some ''/proj'') ''20'')
     = serving_world
   \<and> py_get (fst (start_angular_serve_and_get_initial_output serving_world ''ng serve''
                   (Some ''/proj'') ''20'')) ''status''
     = Some (PStr ''already_running'')
   \<and> py_get (fst (start_angular_serve_and_get_initial_output serving_world ''ng serve''
                   (Some ''/proj'') ''20'')) ''pid''
     = Some (PInt 4242)"
proof -
  have p: "NG_SERVE_PROCESS serving_world = Some \<lparr>pid = 4242, running = True\<rparr>"
    by (simp add: serving_world_def idle_world_def)
  have r: "running \<lparr>pid = 4242, running = True\<rparr>" by simp
  from start_while_alive [OF p r, of "''ng serve''" "Some ''/proj''" "''20''"] p
  show ?thesis by simp
qed

text \<open>
  The claim fails when no project path is set. The server was started with an explicit
  working directory and is alive; a second start without a working directory gets the
  status \<open>error\<close>, not \<open>already_running\<close>, and no process id.
\<close>

theorem start_while_alive_without_path:
  "alive serving_world
   \<and> start_angular_serve_and_get_initial_output serving_world ''ng serve'' None ''20''
     = (PDict [(''status'', PStr ''error''), (''message'', PStr ''Working directory not set.''),
               (''pid'', PNone), (''initial_stdout_log'', PStr []),
               (''initial_stderr_log'', PStr [])],
        serving_world)"
  by (simp add: alive_def serving_world_def idle_world_def
        start_angular_serve_and_get_initial_output_def truthy_def serve_error_def)







section \<open>The file tools\<close>

lemma map_of_dict_set:
  "map_of (dict_set d k v) q = (if q = k then Some v else map_of d q)"
  by (induction d) auto



lemma universal_newlines_plain:
  "CHR 0x0D \<notin> set s \<Longrightarrow> universal_newlines s = s"
  by (induction s rule: universal_newlines.induct) auto

lemma os_makedirs_keeps:
  "os_makedirs w d = Inr w1 \<Longrightarrow>
   CURRENT_PROJECT_PATH w1 = CURRENT_PROJECT_PATH w \<and> io_faults w1 = io_faults w \<and>
   (\<forall>q. q \<noteq> d \<longrightarrow> map_of (filesystem w1) q = map_of (filesystem w) q)"
  by (auto simp: os_makedirs_def map_of_dict_set split: option.splits node.splits if_splits)

lemma open_write_result:
  "open_write w1 p content = Inr w2 \<Longrightarrow>
   CURRENT_PROJECT_PATH w2 = CURRENT_PROJECT_PATH w1 \<and> io_faults w2 = io_faults w1 \<and>
   map_of (io_faults w1) p = None \<and>
   filesystem w2 = dict_set (filesystem w1) p (File content)"
  by (auto simp: open_write_def split: option.splits node.splits)

lemma write_file_success:
  assumes "write_file w rel content = (True, w')"
  shows "\<exists>root. CURRENT_PROJECT_PATH w = Some root \<and> root \<noteq> [] \<and>
           CURRENT_PROJECT_PATH w' = Some root \<and>
           map_of (io_faults w') (os_path_join root rel) = None \<and>
           map_of (filesystem w') (os_path_join root rel) = Some (File content)"
proof -
  from assms obtain root where root: "CURRENT_PROJECT_PATH w = Some root" "root \<noteq> []"
    by (auto simp: write_file_def split: option.splits if_splits)
  let ?full = "os_path_join root rel"
  from assms root obtain w1 where
    mk: "os_makedirs w (os_path_dirname ?full) = Inr w1" and
    wr: "open_write w1 ?full content = Inr w'"
    by (auto simp: write_file_def Let_def split: sum.splits)
  from os_makedirs_keeps [OF mk] open_write_result [OF wr] root
  show ?thesis by (simp add: map_of_dict_set)
qed

text \<open>
  C9, as the code has it. After a successful \<open>write_file\<close> the project path is as
  before, and \<open>read_file\<close> of the same path returns the written content with every
  line ending \<open>\r\n\<close> and \<open>\r\<close> replaced by \<open>\n\<close>: the file is read in text mode.
  For a content without a carriage return, the empty content and contents with
  \<open>\n\<close> among them, that is exactly the written content.
\<close>

theorem write_then_read:
  assumes "write_file w rel content = (True, w')"
  shows "CURRENT_PROJECT_PATH w' = CURRENT_PROJECT_PATH w
       \<and> read_file w' rel = universal_newlines content
       \<and> (CHR 0x0D \<notin> set content \<longrightarrow> read_file w' rel = content)"
proof -
  from write_file_success [OF assms] obtain root where
    r: "CURRENT_PROJECT_PATH w = Some root" "root \<noteq> []" "CURRENT_PROJECT_PATH w' = Some root"
       "map_of (io_faults w') (os_path_join root rel) = None"
       "map_of (filesystem w') (os_path_join root rel) = Some (File content)"
    by blast
  then have rd: "read_file w' rel = universal_newlines content"
    by (simp add: read_file_def open_read_def)
  with r show ?thesis by (simp add: universal_newlines_plain)
qed

text \<open>A text of two lines, written to \<open>src/a.txt\<close> of the project and read back.\<close>

theorem write_then_read_witness:
  "fst (write_file project_world ''src/a.txt'' [CHR ''a'', CHR 0x0A, CHR ''b'']) = True
   \<and> read_file (snd (write_file project_world ''src/a.txt'' [CHR ''a'', CHR 0x0A, CHR ''b'']))
        ''src/a.txt''
     = [CHR ''a'', CHR 0x0A, CHR ''b'']"
proof -
  let ?c = "[CHR ''a'', CHR 0x0A, CHR ''b'']"
  have ok: "fst (write_file project_world ''src/a.txt'' ?c) = True"
    by (simp add: write_file_def project_world_def idle_world_def os_path_join_def ends_with_def
          os_path_dirname_def os_makedirs_def open_write_def Let_def)
  then have "write_file project_world ''src/a.txt'' ?c
             = (True, snd (write_file project_world ''src/a.txt'' ?c))"
    by (cases "write_file project_world ''src/a.txt'' ?c") simp
  from write_then_read [OF this] ok show ?thesis by simp
qed

text \<open>
  The claim fails for a content with a carriage return: \<open>x\ry\<close> is written, and
  \<open>x\ny\<close> is read back.
\<close>

theorem carriage_return_not_read_back:
  "fst (write_file project_world ''a.txt'' [CHR ''x'', CHR 0x0D, CHR ''y'']) = True
   \<and> read_file (snd (write_file project_world ''a.txt'' [CHR ''x'', CHR 0x0D, CHR ''y''])) ''a.txt''
     = [CHR ''x'', CHR 0x0A, CHR ''y'']
   \<and> [CHR ''x'', CHR 0x0A, CHR ''y''] \<noteq> [CHR ''x'', CHR 0x0D, CHR ''y'']"
  by (simp add: write_file_def read_file_def project_world_def idle_world_def os_path_join_def
        ends_with_def os_path_dirname_def os_makedirs_def open_write_def open_read_def Let_def)

text \<open>
  C10. \<open>read_file\<close> returns a string in every case, and the call of the tool with its
  argument never raises. Without a project path the string is the message that the path
  is not set; when opening or reading the file fails, whatever the failure, the string
  begins with \<open>Error\<close>; when the read succeeds, the string is the content, whatever it
  begins with. A failure cannot be told from a content: where the file is missing (and
  its path has no carriage return), a file at that path holding the text of the failure
  message makes \<open>read_file\<close> return the same string.
\<close>

theorem read_file_errors_in_band:
  "(\<not> truthy (CURRENT_PROJECT_PATH w) \<longrightarrow>
      read_file w rel = ''Error: CURRENT_PROJECT_PATH is not set. Cannot read file.'')
   \<and> (\<forall>root e. CURRENT_PROJECT_PATH w = Some root \<and> root \<noteq> [] \<and>
         open_read w (os_path_join root rel) = Inl e \<longrightarrow>
         starts_with (read_file w rel) ''Error'')
   \<and> (\<forall>root c. CURRENT_PROJECT_PATH w = Some root \<and> root \<noteq> [] \<and>
         open_read w (os_path_join root rel) = Inr c \<longrightarrow>
         read_file w rel = c)
   \<and> tool_function w ''read_file'' [(''relative_filepath'', rel)] = (Inr (PStr (read_file w rel)), w)
   \<and> (\<forall>root. CURRENT_PROJECT_PATH w = Some root \<and> root \<noteq> [] \<and>
         map_of (io_faults w) (os_path_join root rel) = None \<and>
         map_of (filesystem w) (os_path_join root rel) = None \<and>
         CHR 0x0D \<notin> set (os_path_join root rel) \<longrightarrow>
         read_file (w\<lparr>filesystem :=
                        dict_set (filesystem w) (os_path_join root rel) (File (read_file w rel))\<rparr>) rel
           = read_file w rel)"
proof (intro conjI allI impI)
  assume "\<not> truthy (CURRENT_PROJECT_PATH w)"
  then show "read_file w rel = ''Error: CURRENT_PROJECT_PATH is not set. Cannot read file.''"
    by (auto simp: read_file_def truthy_def split: option.splits)
next
  fix root e
  assume "CURRENT_PROJECT_PATH w = Some root \<and> root \<noteq> [] \<and>
          open_read w (os_path_join root rel) = Inl e"
  then show "starts_with (read_file w rel) ''Error''"
    by (cases e) (simp_all add: read_file_def)
next
  fix root c
  assume "CURRENT_PROJECT_PATH w = Some root \<and> root \<noteq> [] \<and>
          open_read w (os_path_join root rel) = Inr c"
  then show "read_file w rel = c" by (simp add: read_file_def)
next
  show "tool_function w ''read_file'' [(''relative_filepath'', rel)]
        = (Inr (PStr (read_file w rel)), w)"
    by (simp add: tool_function_def tool_parameters_def)
next
  fix root
  let ?full = "os_path_join root rel"
  assume a: "CURRENT_PROJECT_PATH w = Some root \<and> root \<noteq> [] \<and>
         map_of (io_faults w) ?full = None \<and> map_of (filesystem w) ?full = None \<and>
         CHR 0x0D \<notin> set ?full"
  then have missing: "read_file w rel = ''Error: File not found at '' @ ?full"
    by (simp add: read_file_def open_read_def)
  from a have "CHR 0x0D \<notin> set (''Error: File not found at '' @ ?full)" by simp
  then have "universal_newlines (''Error: File not found at '' @ ?full)
             = ''Error: File not found at '' @ ?full"
    by (rule universal_newlines_plain)
  with a missing
  show "read_file (w\<lparr>filesystem := dict_set (filesystem w) ?full (File (read_file w rel))\<rparr>) rel
        = read_file w rel"
    by (simp add: read_file_def open_read_def map_of_dict_set)
qed

text \<open>A file of the project that does not exist.\<close>

theorem read_file_errors_in_band_witness:
  "open_read project_world (os_path_join ''/proj'' ''missing.txt'')
     = Inl (FileNotFoundError ''[Errno 2] No such file or directory: /proj/missing.txt'')
   \<and> starts_with (read_file project_world ''missing.txt'') ''Error''"
proof -
  have o: "open_read project_world (os_path_join ''/proj'' ''missing.txt'')
     = Inl (FileNotFoundError ''[Errno 2] No such file or directory: /proj/missing.txt'')"
    by (simp add: open_read_def project_world_def idle_world_def os_path_join_def ends_with_def)
  have c: "CURRENT_PROJECT_PATH project_world = Some ''/proj'' \<and> ''/proj'' \<noteq> [] \<and>
           open_read project_world (os_path_join ''/proj'' ''missing.txt'')
             = Inl (FileNotFoundError ''[Errno 2] No such file or directory: /proj/missing.txt'')"
    using o by (simp add: project_world_def idle_world_def)
  note T = read_file_errors_in_band [of project_world "''missing.txt''"]
  from T have "\<forall>root e. CURRENT_PROJECT_PATH project_world = Some root \<and> root \<noteq> [] \<and>
         open_read project_world (os_path_join root ''missing.txt'') = Inl e \<longrightarrow>
         starts_with (read_file project_world ''missing.txt'') ''Error''"
    by (elim conjE)
  from this [rule_format, OF c] o show ?thesis by (rule_tac conjI)
qed




text \<open>
  C8, as the code has it. When the project path is not set, \<open>read_file\<close>,
  \<open>list_directory_contents\<close> and \<open>delete_file_or_directory\<close> return a result that says
  so, \<open>write_file\<close> returns the bare flag \<open>False\<close>, and the start tool called without
  a working directory returns the error that the working directory is not set; all of
  them leave the world as it is. \<open>execute_shell_command\<close> called without a working
  directory does the same for every command that does not contain \<open>ng new\<close>; a command
  that contains \<open>ng new\<close> is run, with no working directory.
\<close>

theorem tools_without_project_path:
  assumes "\<not> truthy (CURRENT_PROJECT_PATH w)"
  shows "read_file w p = ''Error: CURRENT_PROJECT_PATH is not set. Cannot read file.''
       \<and> write_file w p c = (False, w)
       \<and> list_directory_contents w p
           = PDict [(''error'', PStr ''CURRENT_PROJECT_PATH is not set.''), (''contents'', PList [])]
       \<and> delete_file_or_directory w p
           = (PDict [(''status'', PStr ''error''),
                     (''message'', PStr ''CURRENT_PROJECT_PATH is not set.'')], w)
       \<and> start_angular_serve_and_get_initial_output w cmd None dur
           = (serve_error ''Working directory not set.'' [], w)
       \<and> (\<not> py_in ''ng new'' cmd \<longrightarrow>
            execute_shell_command w cmd None
              = (PDict [(''stdout'', PStr []), (''stderr'', PStr ''Error: Working directory not set.''),
                        (''exit_code'', PInt 1)], w))
       \<and> (py_in ''ng new'' cmd \<longrightarrow> runs (snd (execute_shell_command w cmd None)) = Suc (runs w))"
proof -
  from assms have unset: "CURRENT_PROJECT_PATH w = None \<or> CURRENT_PROJECT_PATH w = Some []"
    by (auto simp: truthy_def split: option.splits)
  have rd: "read_file w p = ''Error: CURRENT_PROJECT_PATH is not set. Cannot read file.''"
    using unset by (auto simp: read_file_def)
  have wr: "write_file w p c = (False, w)"
    using unset by (auto simp: write_file_def)
  have ls: "list_directory_contents w p
           = PDict [(''error'', PStr ''CURRENT_PROJECT_PATH is not set.''), (''contents'', PList [])]"
    using unset by (auto simp: list_directory_contents_def)
  have rm: "delete_file_or_directory w p
           = (PDict [(''status'', PStr ''error''),
                     (''message'', PStr ''CURRENT_PROJECT_PATH is not set.'')], w)"
    using unset by (auto simp: delete_file_or_directory_def)
  have st: "start_angular_serve_and_get_initial_output w cmd None dur
           = (serve_error ''Working directory not set.'' [], w)"
    using assms by (simp add: start_angular_serve_and_get_initial_output_def)
  have ex: "\<not> py_in ''ng new'' cmd \<longrightarrow>
            execute_shell_command w cmd None
              = (PDict [(''stdout'', PStr []), (''stderr'', PStr ''Error: Working directory not set.''),
                        (''exit_code'', PInt 1)], w)"
    using assms by (simp add: execute_shell_command_def)
  have ng: "py_in ''ng new'' cmd \<longrightarrow> runs (snd (execute_shell_command w cmd None)) = Suc (runs w)"
    using assms
    by (auto simp: execute_shell_command_def Let_def
          split: run_outcome.splits option.splits prod.splits)
  from rd wr ls rm st ex ng show ?thesis by (intro conjI)
qed

text \<open>Without a project path, \<open>ng build\<close> is refused before anything runs.\<close>

theorem tools_without_project_path_witness:
  "\<not> truthy (CURRENT_PROJECT_PATH idle_world)
   \<and> \<not> py_in ''ng new'' ''ng build''
   \<and> execute_shell_command idle_world ''ng build'' None
     = (PDict [(''stdout'', PStr []), (''stderr'', PStr ''Error: Working directory not set.''),
               (''exit_code'', PInt 1)], idle_world)"
proof -
  have u: "\<not> truthy (CURRENT_PROJECT_PATH idle_world)"
    by (simp add: truthy_def idle_world_def)
  have n: "\<not> py_in ''ng new'' ''ng build''" by simp
  note T = tools_without_project_path [OF u, of "[]" "[]" "''ng build''" "[]"]
  from T have "\<not> py_in ''ng new'' ''ng build'' \<longrightarrow>
            execute_shell_command idle_world ''ng build'' None
              = (PDict [(''stdout'', PStr []), (''stderr'', PStr ''Error: Working directory not set.''),
                        (''exit_code'', PInt 1)], idle_world)"
    by (elim conjE)
  from this [rule_format, OF n] u n show ?thesis by (intro conjI)
qed

text \<open>
  The claim fails for a command that contains \<open>ng new\<close>. Without a project path and
  without a working directory, \<open>ng new app\<close> is run, and its result is the one of the
  command, here exit code 0.
\<close>

theorem ng_new_runs_without_project_path:
  "\<not> truthy (CURRENT_PROJECT_PATH idle_world)
   \<and> fst (execute_shell_command idle_world ''ng new app'' None)
     = PDict [(''stdout'', PStr []), (''stderr'', PStr []), (''exit_code'', PInt 0)]
   \<and> runs (snd (execute_shell_command idle_world ''ng new app'' None)) = 1"
  by (simp add: truthy_def idle_world_def execute_shell_command_def project_name_after_new_def
        py_split_def py_whitespace_def Let_def)

end
